theory Spec2Isabelle
  imports Complex_Main "HOL-Library.Multiset"
begin

section \<open>Data model\<close>

text \<open>
  The rows of the three tables the alert workflow reads and writes.

  \<^item> \<open>alert\<close> holds every column of the \<^verbatim>\<open>alerts\<close> table: the primary key of
    \<^verbatim>\<open>UUIDPrimaryKeyMixin\<close> (\<^verbatim>\<open>id\<close>, here \<open>alert_uuid\<close>, the name the repository and the
    routes give it), the columns that \<^verbatim>\<open>class Alert\<close> declares, and the \<^verbatim>\<open>created_at\<close> and
    \<^verbatim>\<open>updated_at\<close> columns of \<^verbatim>\<open>TimestampMixin\<close>. A \<^verbatim>\<open>Mapped[str | None]\<close> column is an
    option, a \<^verbatim>\<open>Float\<close> column is modelled by a real number, a \<^verbatim>\<open>DateTime\<close> column by the
    text the table stores for it.
  \<^item> \<open>customer\<close> holds the two columns of \<^verbatim>\<open>class Customer\<close> that the workflow reads.
  \<^item> \<open>audit_trail_entry\<close> holds the columns that \<^verbatim>\<open>class AuditTrailEntry\<close> declares; the
    key and the timestamps that the ORM generates at the insert are not modelled.

  A \<open>string\<close> is the UTF-8 encoding of the Python \<^verbatim>\<open>str\<close>: equality of strings is equality
  of their encodings, and the functions that look at single characters (\<open>strip\<close>, the
  example \<open>sample_like\<close>) step through the encoding character by character. A \<^verbatim>\<open>str\<close>
  that has no UTF-8 encoding (one with a lone surrogate) is outside the model.
\<close>

record alert =
  alert_uuid :: string
  alert_id :: string
  customer_id :: string
  typology :: string
  risk_score :: int
  status :: string
  title :: string
  description :: "string option"
  triggered_date :: string
  assigned_analyst :: "string option"
  resolution :: "string option"
  closed_at :: "string option"
  total_flagged_amount :: "real option"
  flagged_transaction_count :: int
  created_at :: string
  updated_at :: string

record customer =
  customer_uuid :: string
  risk_category :: string

record audit_trail_entry =
  entry_alert_id :: string
  action :: string
  details :: "string option"
  performed_by :: string

text \<open>The database session: the three tables, each in insertion order.\<close>

record db =
  alerts :: "alert list"
  customers :: "customer list"
  audit_trail_entries :: "audit_trail_entry list"

text \<open>Python truthiness of a \<^verbatim>\<open>str | None\<close> value: \<^verbatim>\<open>None\<close> and \<^verbatim>\<open>""\<close> are false.\<close>

definition truthy :: "string option \<Rightarrow> bool" where
  "truthy v = (case v of None \<Rightarrow> False | Some s \<Rightarrow> s \<noteq> [])"

section \<open>AlertRepository: lookup and status transitions\<close>

text \<open>\<^verbatim>\<open>get_by_id\<close>: the row whose primary key is the given UUID, if any.\<close>

definition get_by_id :: "db \<Rightarrow> string \<Rightarrow> alert option" where
  "get_by_id s uid = find (\<lambda>a. alert_uuid a = uid) (alerts s)"

text \<open>
  The two readings of the clock that one call of \<^verbatim>\<open>update_status\<close> can make:
  \<open>closing_time\<close> is \<^verbatim>\<open>datetime.now(timezone.utc).isoformat()\<close> in the body of the function,
  \<open>flush_time\<close> is the \<^verbatim>\<open>datetime.now(timezone.utc)\<close> of the \<^verbatim>\<open>onupdate\<close> default of
  \<^verbatim>\<open>TimestampMixin.updated_at\<close>, read when the ORM emits the UPDATE.
\<close>

record clock_reading =
  closing_time :: string
  flush_time :: string

text \<open>
  \<^verbatim>\<open>session.commit()\<close> flushes the object. The ORM compares every assigned attribute with
  the value it loaded: when one differs it emits \<^verbatim>\<open>UPDATE alerts SET ... WHERE id = ?\<close>, and
  the \<^verbatim>\<open>onupdate\<close> default then sets \<^verbatim>\<open>updated_at\<close> as well; when none differs it emits no
  UPDATE. \<open>onupdate\<close> is the object as the flush writes it, \<open>commit_alert\<close> the write to
  the row. \<^verbatim>\<open>session.refresh(alert)\<close> reloads the object from that row.
\<close>

definition onupdate :: "alert \<Rightarrow> alert \<Rightarrow> string \<Rightarrow> alert" where
  "onupdate loaded pending t = (if pending = loaded then pending else pending\<lparr>updated_at := t\<rparr>)"

definition commit_alert :: "alert \<Rightarrow> alert list \<Rightarrow> alert list" where
  "commit_alert a rows = map (\<lambda>r. if alert_uuid r = alert_uuid a then a else r) rows"

text \<open>
  \<^verbatim>\<open>update_status\<close>. The last argument holds the clock readings of the call. The result is
  the returned \<^verbatim>\<open>Alert | None\<close> and the session afterwards.
\<close>

definition update_status ::
  "db \<Rightarrow> string \<Rightarrow> string \<Rightarrow> string \<Rightarrow> string option \<Rightarrow> clock_reading
     \<Rightarrow> alert option \<times> db" where
  "update_status s uid new_status analyst new_resolution now =
     (case get_by_id s uid of
        None \<Rightarrow> (None, s)
      | Some a \<Rightarrow>
          let a1 = a\<lparr>status := new_status\<rparr>;
              a2 = a1\<lparr>assigned_analyst := Some analyst\<rparr>;
              a3 = (if new_status = ''Closed'' \<and> truthy new_resolution
                    then a2\<lparr>resolution := new_resolution,
                            closed_at := Some (closing_time now)\<rparr>
                    else a2);
              a4 = onupdate a a3 (flush_time now)
          in (Some a4, s\<lparr>alerts := commit_alert a4 (alerts s)\<rparr>))"

text \<open>
  \<^verbatim>\<open>bulk_update_status\<close>: the \<^verbatim>\<open>for\<close> loop over the id list, with its two accumulators.
  \<open>clock k\<close> holds the clock readings of the \<open>k\<close>-th iteration.
\<close>

fun bulk_loop ::
  "string list \<Rightarrow> string \<Rightarrow> string \<Rightarrow> string option \<Rightarrow> (nat \<Rightarrow> clock_reading) \<Rightarrow> nat
     \<Rightarrow> nat \<Rightarrow> string list \<Rightarrow> db \<Rightarrow> (nat \<times> string list) \<times> db" where
  "bulk_loop [] new_status analyst new_resolution clock k success_count failed_ids s =
     ((success_count, failed_ids), s)"
| "bulk_loop (uid # rest) new_status analyst new_resolution clock k success_count failed_ids s =
     (case update_status s uid new_status analyst new_resolution (clock k) of
        (Some updated, s') \<Rightarrow>
          bulk_loop rest new_status analyst new_resolution clock (Suc k)
            (success_count + 1) failed_ids s'
      | (None, s') \<Rightarrow>
          bulk_loop rest new_status analyst new_resolution clock (Suc k)
            success_count (failed_ids @ [uid]) s')"

definition bulk_update_status ::
  "db \<Rightarrow> string list \<Rightarrow> string \<Rightarrow> string \<Rightarrow> string option \<Rightarrow> (nat \<Rightarrow> clock_reading)
     \<Rightarrow> (nat \<times> string list) \<times> db" where
  "bulk_update_status s alert_ids new_status analyst new_resolution clock =
     bulk_loop alert_ids new_status analyst new_resolution clock 0 0 [] s"

section \<open>AuditTrailRepository\<close>

text \<open>\<^verbatim>\<open>create\<close>: one entry appended to the audit trail.\<close>

definition audit_create :: "db \<Rightarrow> string \<Rightarrow> string \<Rightarrow> string \<Rightarrow> string option \<Rightarrow> db" where
  "audit_create s aid act who det =
     s\<lparr>audit_trail_entries := audit_trail_entries s @
         [\<lparr>entry_alert_id = aid, action = act, details = det, performed_by = who\<rparr>]\<rparr>"

section \<open>Routes: single transition and bulk close\<close>

datatype http_error = HTTPException nat string

record alert_status_update =
  body_status :: string
  body_rationale :: string
  body_resolution :: "string option"

record bulk_close_request =
  req_alert_ids :: "string list"
  req_resolution :: string
  req_rationale :: string

record bulk_close_response =
  resp_closed_count :: nat
  resp_failed_ids :: "string list"

text \<open>
  \<^verbatim>\<open>update_alert_status\<close> (\<^verbatim>\<open>PATCH /{alert_uuid}/status\<close>): the transition, a 404 when the
  alert is missing, else one audit entry.
\<close>

definition update_alert_status ::
  "db \<Rightarrow> string \<Rightarrow> alert_status_update \<Rightarrow> string \<Rightarrow> clock_reading
     \<Rightarrow> (http_error + alert) \<times> db" where
  "update_alert_status s uid body analyst_username now =
     (case update_status s uid (body_status body) analyst_username (body_resolution body) now of
        (None, s') \<Rightarrow> (Inl (HTTPException 404 (''Alert '' @ [CHR 0x27] @ uid @ [CHR 0x27] @ '' not found'')), s')
      | (Some updated_alert, s') \<Rightarrow>
          let audit_details = ''Status changed to '' @ [CHR 0x27] @ body_status body @ [CHR 0x27]
                                @ ''. Rationale: '' @ body_rationale body;
              audit_details = (case body_resolution body of
                                 None \<Rightarrow> audit_details
                               | Some r \<Rightarrow> if r \<noteq> [] then audit_details @ ''. Resolution: '' @ r
                                          else audit_details)
          in (Inr updated_alert,
              audit_create s' uid ''status_update'' analyst_username (Some audit_details)))"

text \<open>
  \<^verbatim>\<open>bulk_close_alerts\<close> (\<^verbatim>\<open>POST /bulk-close\<close>): the bulk transition to \<^verbatim>\<open>"Closed"\<close>, then
  one audit entry for each requested id that is not among the failed ones.
\<close>

definition bulk_close_audit_details :: "bulk_close_request \<Rightarrow> string" where
  "bulk_close_audit_details body =
     ''Status changed to '' @ [CHR 0x27] @ ''Closed'' @ [CHR 0x27] @ '' via bulk close. ''
       @ ''Rationale: '' @ req_rationale body @ ''. Resolution: '' @ req_resolution body"

definition bulk_close_alerts ::
  "db \<Rightarrow> bulk_close_request \<Rightarrow> string \<Rightarrow> (nat \<Rightarrow> clock_reading)
     \<Rightarrow> bulk_close_response \<times> db" where
  "bulk_close_alerts s body analyst_username clock =
     (case bulk_update_status s (req_alert_ids body) ''Closed'' analyst_username
             (Some (req_resolution body)) clock of
        ((n, failed), s') \<Rightarrow>
          let successfully_closed_ids = filter (\<lambda>aid. aid \<notin> set failed) (req_alert_ids body)
          in (\<lparr>resp_closed_count = n, resp_failed_ids = failed\<rparr>,
              fold (\<lambda>aid t. audit_create t aid ''bulk_close'' analyst_username
                               (Some (bulk_close_audit_details body)))
                   successfully_closed_ids s'))"

section \<open>AlertRepository: queue statistics\<close>

record alert_stats =
  total_alerts :: nat
  open_alerts :: nat
  high_risk_count :: nat
  closed_count :: nat
  unassigned_count :: nat

definition open_statuses :: "string list" where
  "open_statuses = [''New'', ''In Progress'', ''Review'', ''Escalated'']"

text \<open>\<^verbatim>\<open>select(func.count(Alert.id)).where(...)\<close>: the number of rows that satisfy the clause.\<close>

definition count_where :: "(alert \<Rightarrow> bool) \<Rightarrow> db \<Rightarrow> nat" where
  "count_where P s = length (filter P (alerts s))"

definition get_stats :: "db \<Rightarrow> alert_stats" where
  "get_stats s =
     \<lparr>total_alerts = length (alerts s),
      open_alerts = count_where (\<lambda>a. status a \<in> set open_statuses) s,
      high_risk_count = count_where (\<lambda>a. risk_score a \<ge> 70) s,
      closed_count = count_where (\<lambda>a. status a = ''Closed'') s,
      unassigned_count =
        count_where (\<lambda>a. assigned_analyst a = None \<and> status a \<in> set open_statuses) s\<rparr>"

section \<open>AlertRepository: the filtered, sorted, paginated queue\<close>

subsection \<open>String helpers of the status filter\<close>

text \<open>\<^verbatim>\<open>str.split(",")\<close>. The comma is one byte in UTF-8 and occurs in no other character.\<close>

fun split_comma :: "string \<Rightarrow> string list" where
  "split_comma [] = [[]]"
| "split_comma (c # cs) =
     (if c = CHR '',''
      then [] # split_comma cs
      else (case split_comma cs of
              [] \<Rightarrow> [[c]]
            | w # ws \<Rightarrow> (c # w) # ws))"

text \<open>
  The characters of a UTF-8 string: each byte that is not a continuation byte
  (\<^verbatim>\<open>10xxxxxx\<close>) starts a character, which takes the continuation bytes after it.
\<close>

definition is_continuation :: "char \<Rightarrow> bool" where
  "is_continuation c = (let n = (of_char c :: nat) in 128 \<le> n \<and> n < 192)"

function utf8_chars :: "string \<Rightarrow> string list" where
  "utf8_chars [] = []"
| "utf8_chars (c # cs) =
     (c # takeWhile is_continuation cs) # utf8_chars (dropWhile is_continuation cs)"
  by pat_completeness auto
termination
  by (relation "measure length") (auto simp: le_imp_less_Suc length_dropWhile_le)

text \<open>
  The characters that \<^verbatim>\<open>str.strip()\<close> removes, those for which \<^verbatim>\<open>str.isspace()\<close> holds:
  U+0009 to U+000D, U+001C to U+0020, U+0085, U+00A0, U+1680, U+2000 to U+200A, U+2028,
  U+2029, U+202F, U+205F and U+3000, each in its UTF-8 encoding.
\<close>

definition whitespace :: "string list" where
  "whitespace =
     [[CHR 0x09], [CHR 0x0A], [CHR 0x0B], [CHR 0x0C], [CHR 0x0D],
      [CHR 0x1C], [CHR 0x1D], [CHR 0x1E], [CHR 0x1F], [CHR 0x20],
      [CHR 0xC2, CHR 0x85], [CHR 0xC2, CHR 0xA0], [CHR 0xE1, CHR 0x9A, CHR 0x80],
      [CHR 0xE2, CHR 0x80, CHR 0x80], [CHR 0xE2, CHR 0x80, CHR 0x81],
      [CHR 0xE2, CHR 0x80, CHR 0x82], [CHR 0xE2, CHR 0x80, CHR 0x83],
      [CHR 0xE2, CHR 0x80, CHR 0x84], [CHR 0xE2, CHR 0x80, CHR 0x85],
      [CHR 0xE2, CHR 0x80, CHR 0x86], [CHR 0xE2, CHR 0x80, CHR 0x87],
      [CHR 0xE2, CHR 0x80, CHR 0x88], [CHR 0xE2, CHR 0x80, CHR 0x89],
      [CHR 0xE2, CHR 0x80, CHR 0x8A], [CHR 0xE2, CHR 0x80, CHR 0xA8],
      [CHR 0xE2, CHR 0x80, CHR 0xA9], [CHR 0xE2, CHR 0x80, CHR 0xAF],
      [CHR 0xE2, CHR 0x81, CHR 0x9F], [CHR 0xE3, CHR 0x80, CHR 0x80]]"

definition is_space :: "string \<Rightarrow> bool" where
  "is_space ch = (ch \<in> set whitespace)"

text \<open>\<^verbatim>\<open>str.strip()\<close>: the string without the whitespace characters at its two ends.\<close>

definition strip :: "string \<Rightarrow> string" where
  "strip t = concat (rev (dropWhile is_space (rev (dropWhile is_space (utf8_chars t)))))"

subsection \<open>What the runtime decides\<close>

text \<open>
  \<^verbatim>\<open>get_all\<close> hands three decisions to the code it runs on, and the model takes them as a
  parameter:
  \<^item> \<open>like_op column pattern\<close> is SQLite's \<^verbatim>\<open>lower(column) LIKE lower(pattern)\<close>, which
    \<^verbatim>\<open>column.ilike(pattern)\<close> compiles to;
  \<^item> \<open>where_fails filters rows\<close> holds when the engine raises while it evaluates the WHERE
    clause on the table (SQLite refuses a LIKE pattern longer than its limit, on the rows
    that its plan brings to the LIKE);
  \<^item> \<open>unsortable name\<close> holds when \<^verbatim>\<open>name\<close> is an attribute of the class \<^verbatim>\<open>Alert\<close> that is
    not a column, so that \<^verbatim>\<open>getattr\<close> finds it and \<^verbatim>\<open>.asc()\<close> or \<^verbatim>\<open>.desc()\<close> raises on it
    (\<^verbatim>\<open>__tablename__\<close> is a \<^verbatim>\<open>str\<close>).
\<close>

record alert_filters =
  f_typology :: "string option"
  f_status :: "string option"
  f_risk_min :: "int option"
  f_risk_max :: "int option"
  f_search :: "string option"
  f_resolution :: "string option"
  f_assigned_analyst :: "string option"

record runtime =
  like_op :: "string \<Rightarrow> string \<Rightarrow> bool"
  where_fails :: "alert_filters \<Rightarrow> alert list \<Rightarrow> bool"
  unsortable :: "string \<Rightarrow> bool"


text \<open>
  The integers that the SQLite driver binds: those of 64 bits, signed. It raises
  \<^verbatim>\<open>OverflowError\<close> for any other.
\<close>

definition in_int64 :: "int \<Rightarrow> bool" where
  "in_int64 n = (- 9223372036854775808 \<le> n \<and> n \<le> 9223372036854775807)"

subsection \<open>The filter clauses\<close>

text \<open>
  Each definition is one \<^verbatim>\<open>if ...: query = query.where(...)\<close> block of \<^verbatim>\<open>get_all\<close>: the
  clause holds of every row when the block is skipped. A comparison of a NULL column
  with a value selects no row.
\<close>

definition where_typology :: "string option \<Rightarrow> alert \<Rightarrow> bool" where
  "where_typology v a =
     (case v of None \<Rightarrow> True
      | Some t \<Rightarrow> if t = [] then True else typology a = t)"

definition where_status :: "string option \<Rightarrow> alert \<Rightarrow> bool" where
  "where_status v a =
     (case v of None \<Rightarrow> True
      | Some st \<Rightarrow>
          if st = [] then True
          else if CHR '','' \<in> set st
          then status a \<in> set (map strip (split_comma st))
          else status a = st)"

definition where_risk_min :: "int option \<Rightarrow> alert \<Rightarrow> bool" where
  "where_risk_min v a = (case v of None \<Rightarrow> True | Some m \<Rightarrow> risk_score a \<ge> m)"

definition where_risk_max :: "int option \<Rightarrow> alert \<Rightarrow> bool" where
  "where_risk_max v a = (case v of None \<Rightarrow> True | Some m \<Rightarrow> risk_score a \<le> m)"

definition where_resolution :: "string option \<Rightarrow> alert \<Rightarrow> bool" where
  "where_resolution v a =
     (case v of None \<Rightarrow> True
      | Some r \<Rightarrow> if r = [] then True else resolution a = Some r)"

definition where_assigned_analyst :: "string option \<Rightarrow> alert \<Rightarrow> bool" where
  "where_assigned_analyst v a =
     (case v of None \<Rightarrow> True
      | Some an \<Rightarrow>
          if an = [] then True
          else if an = ''__unassigned__'' then assigned_analyst a = None
          else assigned_analyst a = Some an)"

definition where_search :: "runtime \<Rightarrow> string option \<Rightarrow> alert \<Rightarrow> bool" where
  "where_search rt v a =
     (case v of None \<Rightarrow> True
      | Some q \<Rightarrow>
          if q = [] then True
          else (let search_filter = ''%'' @ q @ ''%''
                in like_op rt (title a) search_filter
                   \<or> like_op rt (alert_id a) search_filter
                   \<or> (case description a of
                         None \<Rightarrow> False
                       | Some d \<Rightarrow> like_op rt d search_filter)))"

definition query_where :: "runtime \<Rightarrow> alert_filters \<Rightarrow> alert \<Rightarrow> bool" where
  "query_where rt f a =
     (where_typology (f_typology f) a
      \<and> where_status (f_status f) a
      \<and> where_risk_min (f_risk_min f) a
      \<and> where_risk_max (f_risk_max f) a
      \<and> where_resolution (f_resolution f) a
      \<and> where_assigned_analyst (f_assigned_analyst f) a
      \<and> where_search rt (f_search f) a)"

text \<open>The integers bound into the WHERE clause are those of the two risk bounds.\<close>

definition bound_fits :: "int option \<Rightarrow> bool" where
  "bound_fits v = (case v of None \<Rightarrow> True | Some m \<Rightarrow> in_int64 m)"

subsection \<open>Ordering and the offset/limit window\<close>







text \<open>\<^verbatim>\<open>ORDER BY\<close>: an insertion sort of the selected rows under the given comparison.\<close>

fun insort_by :: "('a \<Rightarrow> 'a \<Rightarrow> bool) \<Rightarrow> 'a \<Rightarrow> 'a list \<Rightarrow> 'a list" where
  "insort_by le x [] = [x]"
| "insort_by le x (y # ys) = (if le x y then x # y # ys else y # insort_by le x ys)"

definition order_by :: "('a \<Rightarrow> 'a \<Rightarrow> bool) \<Rightarrow> 'a list \<Rightarrow> 'a list" where
  "order_by le rows = foldr (insort_by le) rows []"




section \<open>Similar cases service\<close>

definition TYPOLOGY_WEIGHT :: int where "TYPOLOGY_WEIGHT = 40"
definition RISK_SCORE_WEIGHT :: int where "RISK_SCORE_WEIGHT = 25"
definition FLAGGED_AMOUNT_WEIGHT :: int where "FLAGGED_AMOUNT_WEIGHT = 20"
definition RISK_CATEGORY_WEIGHT :: int where "RISK_CATEGORY_WEIGHT = 15"
definition RISK_SCORE_TOLERANCE :: int where "RISK_SCORE_TOLERANCE = 15"
definition FLAGGED_AMOUNT_TOLERANCE_RATIO :: real where "FLAGGED_AMOUNT_TOLERANCE_RATIO = 0.50"
definition MAX_RESULTS :: nat where "MAX_RESULTS = 5"

text \<open>The dictionary built for each scored candidate.\<close>

record similar_case =
  case_id :: string
  case_alert_id :: string
  case_title :: string
  case_typology :: string
  case_risk_score :: int
  case_status :: string
  case_resolution :: "string option"
  similarity_score :: int
  matching_factors :: "string list"

datatype service_error = ValueError string

text \<open>\<^verbatim>\<open>str(n)\<close> of an integer, as the f-strings of the matching factors interpolate it.\<close>

fun show_nat :: "nat \<Rightarrow> string" where
  "show_nat n =
     (if n < 10 then [''0123456789'' ! n]
      else show_nat (n div 10) @ [''0123456789'' ! (n mod 10)])"

definition show_int :: "int \<Rightarrow> string" where
  "show_int i = (if i < 0 then ''-'' @ show_nat (nat (- i)) else show_nat (nat i))"

text \<open>The rupee sign of the third matching factor, in UTF-8.\<close>

definition rupee :: string where
  "rupee = [CHR 0xE2, CHR 0x82, CHR 0xB9]"

text \<open>
  The four rules of the scoring loop, in the order of the source. Each takes the running
  \<^verbatim>\<open>(similarity_score, matching_factors)\<close> and returns it updated. \<open>fmt\<close> stands for
  Python's \<^verbatim>\<open>format(x, ",.0f")\<close> of a float.
\<close>

definition rule_typology :: "alert \<Rightarrow> alert \<Rightarrow> int \<times> string list \<Rightarrow> int \<times> string list" where
  "rule_typology target_alert candidate acc =
     (case acc of (score, factors) \<Rightarrow>
        if typology candidate = typology target_alert
        then (score + TYPOLOGY_WEIGHT, factors @ [''Same typology: '' @ typology candidate])
        else (score, factors))"

definition rule_risk_score :: "alert \<Rightarrow> alert \<Rightarrow> int \<times> string list \<Rightarrow> int \<times> string list" where
  "rule_risk_score target_alert candidate acc =
     (case acc of (score, factors) \<Rightarrow>
        let risk_diff = \<bar>risk_score candidate - risk_score target_alert\<bar>
        in if risk_diff \<le> RISK_SCORE_TOLERANCE
           then (score + RISK_SCORE_WEIGHT,
                 factors @ [''Risk score within '' @ show_int RISK_SCORE_TOLERANCE @ '' points ''
                            @ ''('' @ show_int (risk_score candidate) @ '' vs ''
                            @ show_int (risk_score target_alert) @ '')''])
           else (score, factors))"

definition rule_flagged_amount ::
  "(real \<Rightarrow> string) \<Rightarrow> alert \<Rightarrow> alert \<Rightarrow> int \<times> string list \<Rightarrow> int \<times> string list" where
  "rule_flagged_amount fmt target_alert candidate acc =
     (case acc of (score, factors) \<Rightarrow>
        (case total_flagged_amount target_alert of
           None \<Rightarrow> (score, factors)
         | Some t \<Rightarrow>
             if t > 0
             then (case total_flagged_amount candidate of
                     None \<Rightarrow> (score, factors)
                   | Some c \<Rightarrow>
                       let amount_diff = \<bar>c - t\<bar>;
                           threshold = t * FLAGGED_AMOUNT_TOLERANCE_RATIO
                       in if amount_diff \<le> threshold
                          then (score + FLAGGED_AMOUNT_WEIGHT,
                                factors @ [''Flagged amount within 50% ''
                                           @ ''('' @ rupee @ fmt c @ '' vs ''
                                           @ rupee @ fmt t @ '')''])
                          else (score, factors))
             else (score, factors)))"

definition rule_risk_category ::
  "string option \<Rightarrow> string option \<Rightarrow> int \<times> string list \<Rightarrow> int \<times> string list" where
  "rule_risk_category target_risk_category candidate_risk_category acc =
     (case acc of (score, factors) \<Rightarrow>
        (case target_risk_category of
           None \<Rightarrow> (score, factors)
         | Some tc \<Rightarrow>
             (case candidate_risk_category of
                None \<Rightarrow> (score, factors)
              | Some cc \<Rightarrow>
                  if cc = tc
                  then (score + RISK_CATEGORY_WEIGHT, factors @ [''Same risk category: '' @ cc])
                  else (score, factors))))"

definition score_candidate ::
  "(real \<Rightarrow> string) \<Rightarrow> alert \<Rightarrow> string option \<Rightarrow> alert \<Rightarrow> string option
     \<Rightarrow> int \<times> string list" where
  "score_candidate fmt target_alert target_risk_category candidate candidate_risk_category =
     rule_risk_category target_risk_category candidate_risk_category
       (rule_flagged_amount fmt target_alert candidate
          (rule_risk_score target_alert candidate
             (rule_typology target_alert candidate (0, []))))"

text \<open>
  The customer of an alert, through \<^verbatim>\<open>Customer.id == alert.customer_id\<close>, and its
  \<^verbatim>\<open>risk_category\<close>; \<^verbatim>\<open>None\<close> when there is no such customer.
\<close>

definition customer_risk_category :: "db \<Rightarrow> alert \<Rightarrow> string option" where
  "customer_risk_category s a =
     map_option risk_category (find (\<lambda>c. customer_uuid c = customer_id a) (customers s))"

text \<open>The \<^verbatim>\<open>for candidate in candidates\<close> loop: a candidate that scores 0 is not appended.\<close>

fun score_loop ::
  "(real \<Rightarrow> string) \<Rightarrow> db \<Rightarrow> alert \<Rightarrow> string option \<Rightarrow> alert list \<Rightarrow> similar_case list" where
  "score_loop fmt s target_alert target_risk_category [] = []"
| "score_loop fmt s target_alert target_risk_category (candidate # rest) =
     (case score_candidate fmt target_alert target_risk_category candidate
             (customer_risk_category s candidate) of
        (score, factors) \<Rightarrow>
          if score > 0
          then \<lparr>case_id = alert_uuid candidate,
                case_alert_id = alert_id candidate,
                case_title = title candidate,
                case_typology = typology candidate,
                case_risk_score = risk_score candidate,
                case_status = status candidate,
                case_resolution = resolution candidate,
                similarity_score = score,
                matching_factors = factors\<rparr>
               # score_loop fmt s target_alert target_risk_category rest
          else score_loop fmt s target_alert target_risk_category rest)"

text \<open>
  \<^verbatim>\<open>find_similar_cases\<close>. Python's \<^verbatim>\<open>list.sort(key=..., reverse=True)\<close> is stable: it is
  the stable sort on the negated key.
\<close>

definition find_similar_cases ::
  "(real \<Rightarrow> string) \<Rightarrow> db \<Rightarrow> string \<Rightarrow> service_error + similar_case list" where
  "find_similar_cases fmt s uid =
     (case find (\<lambda>a. alert_uuid a = uid) (alerts s) of
        None \<Rightarrow> Inl (ValueError (''Alert '' @ [CHR 0x27] @ uid @ [CHR 0x27] @ '' not found''))
      | Some target_alert \<Rightarrow>
          let target_risk_category = customer_risk_category s target_alert;
              candidates = filter (\<lambda>a. alert_uuid a \<noteq> uid) (alerts s);
              scored_cases = score_loop fmt s target_alert target_risk_category candidates;
              scored_cases = sort_key (\<lambda>c. - similarity_score c) scored_cases
          in Inr (take MAX_RESULTS scored_cases))"

section \<open>Example data\<close>

text \<open>A row with the given key, status, analyst and risk score; the other columns are fixed.\<close>

definition sample_alert :: "string \<Rightarrow> string \<Rightarrow> string option \<Rightarrow> int \<Rightarrow> alert" where
  "sample_alert uid st an risk =
     \<lparr>alert_uuid = uid, alert_id = ''S'' @ uid, customer_id = ''c1'', typology = ''Structuring'',
      risk_score = risk, status = st, title = ''Cash deposits below threshold'',
      description = None, triggered_date = ''2025-01-20'', assigned_analyst = an,
      resolution = None, closed_at = None, total_flagged_amount = Some 1000,
      flagged_transaction_count = 3, created_at = ''2025-01-20 08:00:00.000000'',
      updated_at = ''2025-01-20 08:00:00.000000''\<rparr>"

text \<open>The six alerts of the statistics example.\<close>

definition stats_db :: db where
  "stats_db =
     \<lparr>alerts =
        [sample_alert ''1'' ''New'' None 80,
         sample_alert ''2'' ''In Progress'' (Some ''a'') 70,
         sample_alert ''3'' ''Review'' None 60,
         sample_alert ''4'' ''Closed'' (Some ''a'') 90,
         sample_alert ''5'' ''Escalated'' None 55,
         sample_alert ''6'' ''Closed'' (Some ''a'') 75],
      customers = [\<lparr>customer_uuid = ''c1'', risk_category = ''High''\<rparr>],
      audit_trail_entries = []\<rparr>"

text \<open>A closed alert that carries its resolution, and the queue that holds only it.\<close>

definition closed_alert :: alert where
  "closed_alert =
     (sample_alert ''7'' ''Closed'' (Some ''a'') 40)
       \<lparr>resolution := Some ''No Suspicion'', closed_at := Some ''2025-02-01T10:00:00+00:00''\<rparr>"

definition closed_db :: db where
  "closed_db = \<lparr>alerts = [closed_alert], customers = [], audit_trail_entries = []\<rparr>"

definition no_filters :: alert_filters where
  "no_filters =
     \<lparr>f_typology = None, f_status = None, f_risk_min = None, f_risk_max = None,
      f_search = None, f_resolution = None, f_assigned_analyst = None\<rparr>"

text \<open>Clock readings of a call, and a clock that gives them at every iteration.\<close>

definition sample_now :: clock_reading where
  "sample_now =
     \<lparr>closing_time = ''2025-03-01T09:00:00+00:00'', flush_time = ''2025-03-01 09:00:00.000100''\<rparr>"

definition sample_clock :: "nat \<Rightarrow> clock_reading" where
  "sample_clock k = sample_now"

text \<open>
  A runtime for the examples. Its LIKE is SQLite's on text: both sides in lower case of
  ASCII and cut at the first NUL, \<^verbatim>\<open>%\<close> for any run of characters, \<^verbatim>\<open>_\<close> for one
  character. Its engine never fails, and of the names that are not columns it takes
  \<^verbatim>\<open>__tablename__\<close> to be an attribute of the class on which ordering raises.
\<close>

definition ascii_lower :: "char \<Rightarrow> char" where
  "ascii_lower c =
     (let n = (of_char c :: nat) in if 65 \<le> n \<and> n \<le> 90 then char_of (n + 32) else c)"

fun like_chars :: "string list \<Rightarrow> string list \<Rightarrow> bool" where
  "like_chars [] [] = True"
| "like_chars [] (c # cs) = False"
| "like_chars (p # ps) [] = (p = ''%'' \<and> like_chars ps [])"
| "like_chars (p # ps) (c # cs) =
     (if p = ''%'' then like_chars ps (c # cs) \<or> like_chars (p # ps) cs
      else (p = ''_'' \<or> p = c) \<and> like_chars ps cs)"

definition sample_like :: "string \<Rightarrow> string \<Rightarrow> bool" where
  "sample_like column pattern =
     like_chars
       (utf8_chars (takeWhile (\<lambda>c. c \<noteq> CHR 0x00) (map ascii_lower pattern)))
       (utf8_chars (takeWhile (\<lambda>c. c \<noteq> CHR 0x00) (map ascii_lower column)))"

definition sample_runtime :: runtime where
  "sample_runtime =
     \<lparr>like_op = sample_like,
      where_fails = (\<lambda>f rows. False),
      unsortable = (\<lambda>name. name = ''__tablename__'')\<rparr>"

section \<open>Properties of the data model\<close>

text \<open>
  The invariant of the \<open>resolution\<close> column as the data model words it: a row carries a
  resolution only when its status is \<^verbatim>\<open>"Closed"\<close>.
\<close>

definition resolution_only_when_closed :: "alert list \<Rightarrow> bool" where
  "resolution_only_when_closed rows =
     list_all (\<lambda>a. resolution a = None \<or> status a = ''Closed'') rows"

text \<open>No alert among the given ids carries a resolution.\<close>

definition targets_unresolved :: "db \<Rightarrow> string list \<Rightarrow> bool" where
  "targets_unresolved s ids =
     list_all (\<lambda>uid. case get_by_id s uid of None \<Rightarrow> True | Some a \<Rightarrow> resolution a = None) ids"



section \<open>Lookup and single transitions: basic facts\<close>

lemma get_by_id_None_iff: "get_by_id s uid = None \<longleftrightarrow> uid \<notin> alert_uuid ` set (alerts s)"
  by (auto simp: get_by_id_def find_None_iff)

lemma get_by_id_SomeD: "get_by_id s uid = Some a \<Longrightarrow> alert_uuid a = uid \<and> a \<in> set (alerts s)"
  by (auto simp: get_by_id_def find_Some_iff)

lemma update_status_missing:
  "get_by_id s uid = None \<Longrightarrow> update_status s uid st an r now = (None, s)"
  by (simp add: update_status_def)

lemma onupdate_sel [simp]:
  "alert_uuid (onupdate l p t) = alert_uuid p"
  "status (onupdate l p t) = status p"
  "assigned_analyst (onupdate l p t) = assigned_analyst p"
  "resolution (onupdate l p t) = resolution p"
  "closed_at (onupdate l p t) = closed_at p"
  by (simp_all add: onupdate_def)

lemma update_status_found:
  assumes "get_by_id s uid = Some a"
  shows "update_status s uid st an r now =
           (let a' = onupdate a
                       (if st = ''Closed'' \<and> truthy r
                        then a\<lparr>status := st, assigned_analyst := Some an,
                               resolution := r, closed_at := Some (closing_time now)\<rparr>
                        else a\<lparr>status := st, assigned_analyst := Some an\<rparr>)
                       (flush_time now)
            in (Some a', s\<lparr>alerts := commit_alert a' (alerts s)\<rparr>))"
  using assms by (simp add: update_status_def Let_def)

lemma find_commit_same:
  assumes "find (\<lambda>r. alert_uuid r = uid) rows = Some a" and "alert_uuid b = uid"
  shows "find (\<lambda>r. alert_uuid r = uid) (commit_alert b rows) = Some b"
  using assms by (induction rows) (auto simp: commit_alert_def split: if_splits)

lemma find_commit_other:
  assumes "alert_uuid b \<noteq> uid'"
  shows "find (\<lambda>r. alert_uuid r = uid') (commit_alert b rows) = find (\<lambda>r. alert_uuid r = uid') rows"
  using assms by (induction rows) (auto simp: commit_alert_def)

lemma update_status_fst_uuid:
  "fst (update_status s uid st an r now) = Some a' \<Longrightarrow> alert_uuid a' = uid"
  by (cases "get_by_id s uid")
     (auto simp: update_status_missing update_status_found Let_def dest: get_by_id_SomeD split: if_splits)

lemma get_by_id_after_same:
  "get_by_id (snd (update_status s uid st an r now)) uid = fst (update_status s uid st an r now)"
proof (cases "get_by_id s uid")
  case None
  then show ?thesis by (simp add: update_status_missing)
next
  case (Some a)
  then have u: "alert_uuid a = uid" by (simp add: get_by_id_SomeD)
  from Some have f: "find (\<lambda>r. alert_uuid r = uid) (alerts s) = Some a"
    by (simp add: get_by_id_def)
  show ?thesis
    using u by (simp add: update_status_found [OF Some] Let_def get_by_id_def find_commit_same [OF f])
qed

lemma get_by_id_after_other:
  assumes "uid' \<noteq> uid"
  shows "get_by_id (snd (update_status s uid st an r now)) uid' = get_by_id s uid'"
proof (cases "get_by_id s uid")
  case None
  then show ?thesis by (simp add: update_status_missing)
next
  case (Some a)
  then have u: "alert_uuid a = uid" by (simp add: get_by_id_SomeD)
  show ?thesis
    using u assms by (simp add: update_status_found [OF Some] Let_def get_by_id_def find_commit_other)
qed

lemma update_status_fst_None_iff:
  "fst (update_status s uid st an r now) = None \<longleftrightarrow> get_by_id s uid = None"
  by (cases "get_by_id s uid") (simp_all add: update_status_missing update_status_found Let_def)

lemma missing_after_update_iff:
  "get_by_id (snd (update_status s uid st an r now)) u = None \<longleftrightarrow> get_by_id s u = None"
  by (cases "u = uid")
     (simp_all add: get_by_id_after_same get_by_id_after_other update_status_fst_None_iff)

lemma update_status_other_tables:
  "customers (snd (update_status s uid st an r now)) = customers s"
  "audit_trail_entries (snd (update_status s uid st an r now)) = audit_trail_entries s"
  by (cases "get_by_id s uid"; simp add: update_status_missing update_status_found Let_def)+

lemma bulk_loop_result:
  "fst (bulk_loop ids st an r clock k n failed s) =
     (n + length (filter (\<lambda>u. get_by_id s u \<noteq> None) ids),
      failed @ filter (\<lambda>u. get_by_id s u = None) ids)"
proof (induction ids arbitrary: k n failed s)
  case Nil
  then show ?case by simp
next
  case (Cons u ids)
  obtain res s' where us: "update_status s u st an r (clock k) = (res, s')"
    by (cases "update_status s u st an r (clock k)")
  have same: "\<And>v. (get_by_id s' v = None) = (get_by_id s v = None)"
    using missing_after_update_iff [of s u st an r "clock k"] us by simp
  have res: "(res = None) = (get_by_id s u = None)"
    using update_status_fst_None_iff [of s u st an r "clock k"] us by simp
  show ?case
  proof (cases res)
    case None
    with res us show ?thesis by (simp add: Cons.IH same)
  next
    case (Some a)
    with res us show ?thesis by (simp add: Cons.IH same)
  qed
qed

lemma bulk_loop_other_tables:
  "customers (snd (bulk_loop ids st an r clock k n failed s)) = customers s \<and>
   audit_trail_entries (snd (bulk_loop ids st an r clock k n failed s)) = audit_trail_entries s"
proof (induction ids arbitrary: k n failed s)
  case Nil
  then show ?case by simp
next
  case (Cons u ids)
  obtain res s' where us: "update_status s u st an r (clock k) = (res, s')"
    by (cases "update_status s u st an r (clock k)")
  have t: "customers s' = customers s" "audit_trail_entries s' = audit_trail_entries s"
    using update_status_other_tables [of s u st an r "clock k"] us by simp_all
  show ?case using us t by (cases res) (simp_all add: Cons.IH)
qed

lemma bulk_loop_untouched:
  "uid \<notin> set ids \<Longrightarrow>
   get_by_id (snd (bulk_loop ids st an r clock k n failed s)) uid = get_by_id s uid"
proof (induction ids arbitrary: k n failed s)
  case Nil
  then show ?case by simp
next
  case (Cons u ids)
  obtain res s' where us: "update_status s u st an r (clock k) = (res, s')"
    by (cases "update_status s u st an r (clock k)")
  have "get_by_id s' uid = get_by_id s uid"
    using get_by_id_after_other [of uid u s st an r "clock k"] us Cons.prems by auto
  then show ?case using us Cons by (cases res) simp_all
qed

lemma update_status_fst_fields:
  "fst (update_status s uid st an r now) = Some a' \<Longrightarrow> status a' = st \<and> assigned_analyst a' = Some an"
  by (cases "get_by_id s uid")
     (auto simp: update_status_missing update_status_found Let_def split: if_splits)

lemma bulk_loop_every_found_id:
  "uid \<in> set ids \<Longrightarrow> get_by_id s uid \<noteq> None \<Longrightarrow>
   \<exists>a. get_by_id (snd (bulk_loop ids st an r clock k n failed s)) uid = Some a
        \<and> status a = st \<and> assigned_analyst a = Some an"
proof (induction ids arbitrary: k n failed s)
  case Nil
  then show ?case by simp
next
  case (Cons u ids)
  obtain res s' where us: "update_status s u st an r (clock k) = (res, s')"
    by (cases "update_status s u st an r (clock k)")
  have found': "get_by_id s' uid \<noteq> None"
    using missing_after_update_iff [of s u st an r "clock k" uid] us Cons.prems(2) by simp
  have step: "snd (bulk_loop (u # ids) st an r clock k n failed s) =
              snd (bulk_loop ids st an r clock (Suc k)
                     (if res = None then n else n + 1)
                     (if res = None then failed @ [u] else failed) s')"
    using us by (cases res) simp_all
  show ?case
  proof (cases "uid \<in> set ids")
    case True
    from Cons.IH [OF True found'] show ?thesis unfolding step .
  next
    case False
    with Cons.prems(1) have eq: "uid = u" by simp
    have "get_by_id s' u = res"
      using get_by_id_after_same [of s u st an r "clock k"] us by simp
    moreover from found' eq obtain a where "get_by_id s' u = Some a" by auto
    ultimately have r: "res = Some a" and g: "get_by_id s' u = Some a" by simp_all
    have "status a = st \<and> assigned_analyst a = Some an"
      using update_status_fst_fields [of s u st an r "clock k" a] us r by simp
    then show ?thesis
      unfolding step using bulk_loop_untouched [of uid ids] False eq g by simp
  qed
qed

lemma sample_alert_sel [simp]:
  "alert_uuid (sample_alert uid st an risk) = uid"
  "status (sample_alert uid st an risk) = st"
  "assigned_analyst (sample_alert uid st an risk) = an"
  "risk_score (sample_alert uid st an risk) = risk"
  "resolution (sample_alert uid st an risk) = None"
  "closed_at (sample_alert uid st an risk) = None"
  by (simp_all add: sample_alert_def)

section \<open>A transition of a missing alert\<close>

text \<open>
  Claim C7. When no alert has the given id, \<open>update_status\<close> returns \<^verbatim>\<open>None\<close> and leaves
  the session as it was: no alert row is changed and no audit entry is written. The
  route \<open>update_alert_status\<close> then answers 404 and also leaves the session as it was.
\<close>

theorem update_status_not_found:
  assumes "get_by_id s uid = None"
  shows "update_status s uid new_status analyst new_resolution now = (None, s)
         \<and> update_alert_status s uid body analyst now =
             (Inl (HTTPException 404 (''Alert '' @ [CHR 0x27] @ uid @ [CHR 0x27] @ '' not found'')), s)"
  using assms by (simp add: update_status_missing update_alert_status_def)

theorem update_status_not_found_witness:
  "get_by_id stats_db ''bogus'' = None
   \<and> update_status stats_db ''bogus'' ''Closed'' ''sarah.chen'' (Some ''No Suspicion'') sample_now = (None, stats_db)
   \<and> fst (update_alert_status stats_db ''bogus''
        \<lparr>body_status = ''Closed'', body_rationale = ''r'', body_resolution = None\<rparr> ''sarah.chen'' sample_now)
       = Inl (HTTPException 404 ''Alert 'bogus' not found'')
   \<and> audit_trail_entries (snd (update_alert_status stats_db ''bogus''
        \<lparr>body_status = ''Closed'', body_rationale = ''r'', body_resolution = None\<rparr> ''sarah.chen'' sample_now)) = []"
proof -
  have h: "get_by_id stats_db ''bogus'' = None"
    by (simp add: get_by_id_def stats_db_def)
  show ?thesis
    using h update_status_not_found [OF h, of "''Closed''" "''sarah.chen''" "Some ''No Suspicion''" sample_now
        "\<lparr>body_status = ''Closed'', body_rationale = ''r'', body_resolution = None\<rparr>"]
    by (simp add: stats_db_def)
qed

section \<open>Closing with an empty resolution\<close>

text \<open>
  Claim C10. For an alert that is present, closing it with the empty string as resolution
  does what closing it with no resolution does: the status becomes \<^verbatim>\<open>"Closed"\<close>, the analyst
  is reassigned, and \<open>resolution\<close> and \<open>closed_at\<close> keep their values (the flush sets
  \<open>updated_at\<close> when the status or the analyst changed). The route writes
  its audit entry without a resolution part. The instance below ends with an alert that is
  closed while its resolution and its closing time are both null.
\<close>

theorem close_with_empty_resolution:
  assumes "get_by_id s uid = Some a"
  shows "update_status s uid ''Closed'' analyst (Some '''') now
           = update_status s uid ''Closed'' analyst None now
         \<and> update_status s uid ''Closed'' analyst (Some '''') now
           = (Some (onupdate a (a\<lparr>status := ''Closed'', assigned_analyst := Some analyst\<rparr>)
                      (flush_time now)),
              s\<lparr>alerts := commit_alert
                            (onupdate a (a\<lparr>status := ''Closed'', assigned_analyst := Some analyst\<rparr>)
                               (flush_time now))
                            (alerts s)\<rparr>)
         \<and> map_option status (fst (update_status s uid ''Closed'' analyst (Some '''') now))
           = Some ''Closed''
         \<and> map_option assigned_analyst (fst (update_status s uid ''Closed'' analyst (Some '''') now))
           = Some (Some analyst)
         \<and> map_option resolution (fst (update_status s uid ''Closed'' analyst (Some '''') now))
           = Some (resolution a)
         \<and> map_option closed_at (fst (update_status s uid ''Closed'' analyst (Some '''') now))
           = Some (closed_at a)
         \<and> update_alert_status s uid
             \<lparr>body_status = ''Closed'', body_rationale = rationale, body_resolution = Some ''''\<rparr>
             analyst now
           = (Inr (onupdate a (a\<lparr>status := ''Closed'', assigned_analyst := Some analyst\<rparr>)
                     (flush_time now)),
              audit_create
                (s\<lparr>alerts := commit_alert
                              (onupdate a (a\<lparr>status := ''Closed'', assigned_analyst := Some analyst\<rparr>)
                                 (flush_time now))
                              (alerts s)\<rparr>)
                uid ''status_update'' analyst
                (Some (''Status changed to '' @ [CHR 0x27] @ ''Closed'' @ [CHR 0x27]
                       @ ''. Rationale: '' @ rationale)))"
  using assms
  by (simp add: update_status_found truthy_def Let_def update_alert_status_def)

theorem close_with_empty_resolution_witness:
  "get_by_id stats_db ''1'' = Some (sample_alert ''1'' ''New'' None 80)
   \<and> map_option status
        (get_by_id (snd (update_status stats_db ''1'' ''Closed'' ''sarah.chen'' (Some '''') sample_now)) ''1'')
       = Some ''Closed''
   \<and> map_option resolution
        (get_by_id (snd (update_status stats_db ''1'' ''Closed'' ''sarah.chen'' (Some '''') sample_now)) ''1'')
       = Some None
   \<and> map_option closed_at
        (get_by_id (snd (update_status stats_db ''1'' ''Closed'' ''sarah.chen'' (Some '''') sample_now)) ''1'')
       = Some None"
proof -
  have h: "get_by_id stats_db ''1'' = Some (sample_alert ''1'' ''New'' None 80)"
    by (simp add: get_by_id_def stats_db_def)
  note t = close_with_empty_resolution [OF h, of "''sarah.chen''" sample_now "''r''"]
  from t have st: "map_option status
      (fst (update_status stats_db ''1'' ''Closed'' ''sarah.chen'' (Some '''') sample_now)) = Some ''Closed''"
    by blast
  from t have re: "map_option resolution
      (fst (update_status stats_db ''1'' ''Closed'' ''sarah.chen'' (Some '''') sample_now))
      = Some (resolution (sample_alert ''1'' ''New'' None 80))"
    by blast
  from t have cl: "map_option closed_at
      (fst (update_status stats_db ''1'' ''Closed'' ''sarah.chen'' (Some '''') sample_now))
      = Some (closed_at (sample_alert ''1'' ''New'' None 80))"
    by blast
  show ?thesis
    unfolding get_by_id_after_same st re cl using h by simp
qed

section \<open>The resolution invariant under transitions\<close>

lemma update_status_resolution_kept:
  assumes "fst (update_status s uid st an r now) = Some a'" and "st \<noteq> ''Closed''"
  shows "\<exists>a. get_by_id s uid = Some a \<and> resolution a' = resolution a \<and> closed_at a' = closed_at a"
  using assms
  by (cases "get_by_id s uid") (auto simp: update_status_missing update_status_found Let_def)

lemma list_all_commit_alert:
  "list_all P rows \<Longrightarrow> P b \<Longrightarrow> list_all P (commit_alert b rows)"
  by (induction rows) (simp_all add: commit_alert_def)

lemma update_status_preserves_invariant:
  assumes inv: "resolution_only_when_closed (alerts s)"
    and ok: "st = ''Closed'' \<or> targets_unresolved s [uid]"
  shows "resolution_only_when_closed (alerts (snd (update_status s uid st an r now)))"
proof (cases "get_by_id s uid")
  case None
  with inv show ?thesis by (simp add: update_status_missing)
next
  case (Some a)
  from ok Some have "st = ''Closed'' \<or> resolution a = None"
    by (auto simp: targets_unresolved_def)
  then show ?thesis
    using inv unfolding resolution_only_when_closed_def
    by (auto simp: update_status_found [OF Some] Let_def intro!: list_all_commit_alert)
qed

lemma targets_unresolved_step:
  assumes "targets_unresolved s (u # ids)" and "st \<noteq> ''Closed''"
  shows "targets_unresolved (snd (update_status s u st an r now)) ids"
proof -
  have "case get_by_id (snd (update_status s u st an r now)) uid of
          None \<Rightarrow> True | Some a \<Rightarrow> resolution a = None"
    if "uid \<in> set ids" for uid
  proof (cases "uid = u")
    case True
    show ?thesis
    proof (cases "fst (update_status s u st an r now)")
      case None
      then show ?thesis using True by (simp add: get_by_id_after_same)
    next
      case (Some a')
      from update_status_resolution_kept [OF Some assms(2)] assms(1)
      have "resolution a' = None" by (auto simp: targets_unresolved_def)
      then show ?thesis using True Some by (simp add: get_by_id_after_same)
    qed
  next
    case False
    then show ?thesis
      using assms(1) that by (auto simp: get_by_id_after_other targets_unresolved_def list_all_iff)
  qed
  then show ?thesis by (simp add: targets_unresolved_def list_all_iff)
qed

lemma bulk_loop_preserves_invariant:
  assumes "resolution_only_when_closed (alerts s)"
    and "st = ''Closed'' \<or> targets_unresolved s ids"
  shows "resolution_only_when_closed (alerts (snd (bulk_loop ids st an r clock k n failed s)))"
  using assms
proof (induction ids arbitrary: k n failed s)
  case Nil
  then show ?case by simp
next
  case (Cons u ids)
  obtain res s' where us: "update_status s u st an r (clock k) = (res, s')"
    by (cases "update_status s u st an r (clock k)")
  from Cons.prems(2) have one: "st = ''Closed'' \<or> targets_unresolved s [u]"
    by (auto simp: targets_unresolved_def)
  have inv': "resolution_only_when_closed (alerts s')"
    using update_status_preserves_invariant [OF Cons.prems(1) one, of an r "clock k"] us by simp
  have ok': "st = ''Closed'' \<or> targets_unresolved s' ids"
    using Cons.prems(2) targets_unresolved_step [of s u ids st an r "clock k"] us by auto
  show ?case
    using us Cons.IH [OF inv' ok'] by (cases res) simp_all
qed

lemma update_status_keeps_resolution:
  assumes "st \<noteq> ''Closed''"
  shows "map_option resolution (get_by_id (snd (update_status s uid st an r now)) u)
           = map_option resolution (get_by_id s u)
         \<and> map_option closed_at (get_by_id (snd (update_status s uid st an r now)) u)
           = map_option closed_at (get_by_id s u)"
proof (cases "u = uid")
  case False
  then show ?thesis by (simp add: get_by_id_after_other)
next
  case True
  show ?thesis
  proof (cases "get_by_id s uid")
    case None
    then show ?thesis using True by (simp add: update_status_missing)
  next
    case (Some a)
    then have "fst (update_status s uid st an r now) \<noteq> None"
      by (simp add: update_status_fst_None_iff)
    then obtain a' where f: "fst (update_status s uid st an r now) = Some a'" by auto
    from update_status_resolution_kept [OF f assms] Some
    have "resolution a' = resolution a \<and> closed_at a' = closed_at a" by auto
    then show ?thesis
      using True Some f by (simp add: get_by_id_after_same)
  qed
qed

lemma bulk_loop_keeps_resolution:
  assumes "st \<noteq> ''Closed''"
  shows "map_option resolution (get_by_id (snd (bulk_loop ids st an r clock k n failed s)) u)
           = map_option resolution (get_by_id s u)
         \<and> map_option closed_at (get_by_id (snd (bulk_loop ids st an r clock k n failed s)) u)
           = map_option closed_at (get_by_id s u)"
proof (induction ids arbitrary: k n failed s)
  case Nil
  then show ?case by simp
next
  case (Cons v ids)
  obtain res s' where us: "update_status s v st an r (clock k) = (res, s')"
    by (cases "update_status s v st an r (clock k)")
  have one: "map_option resolution (get_by_id s' u) = map_option resolution (get_by_id s u)
             \<and> map_option closed_at (get_by_id s' u) = map_option closed_at (get_by_id s u)"
    using update_status_keeps_resolution [OF assms, of s v an r "clock k" u] us by simp
  show ?case
    using us one Cons.IH by (cases res) simp_all
qed

lemma reopening_breaks_invariant:
  assumes "st \<noteq> ''Closed''" and "get_by_id s uid = Some a" and "resolution a \<noteq> None"
  shows "(\<exists>a'. get_by_id (snd (update_status s uid st an r now)) uid = Some a'
               \<and> status a' = st \<and> resolution a' = resolution a)
         \<and> \<not> resolution_only_when_closed (alerts (snd (update_status s uid st an r now)))"
proof -
  from assms(2) have "fst (update_status s uid st an r now) \<noteq> None"
    by (simp add: update_status_fst_None_iff)
  then obtain a' where f: "fst (update_status s uid st an r now) = Some a'" by auto
  from update_status_resolution_kept [OF f assms(1)] assms(2)
  have re: "resolution a' = resolution a" by auto
  from update_status_fst_fields [OF f] have st: "status a' = st" by simp
  have g: "get_by_id (snd (update_status s uid st an r now)) uid = Some a'"
    using f by (simp add: get_by_id_after_same)
  then have mem: "a' \<in> set (alerts (snd (update_status s uid st an r now)))"
    by (simp add: get_by_id_SomeD)
  have bad: "\<not> (resolution a' = None \<or> status a' = ''Closed'')"
    using re st assms(1,3) by simp
  have "\<not> resolution_only_when_closed (alerts (snd (update_status s uid st an r now)))"
  proof
    assume "resolution_only_when_closed (alerts (snd (update_status s uid st an r now)))"
    then have "\<forall>x \<in> set (alerts (snd (update_status s uid st an r now))).
                 resolution x = None \<or> status x = ''Closed''"
      by (simp add: resolution_only_when_closed_def list_all_iff)
    from bspec [OF this mem] bad show False by simp
  qed
  with g st re show ?thesis by blast
qed

text \<open>
  Claim C1, as the code has it. From a table in which every row with a resolution is
  closed, a transition keeps that property when the new status is \<^verbatim>\<open>"Closed"\<close> or when
  no targeted alert carries a resolution; this holds for \<open>update_status\<close> and for
  \<open>bulk_update_status\<close>. A transition to any other status, single or bulk, leaves the
  resolution and the closing time of every alert as they were: it never writes one and
  never clears one. So a transition of an alert that carries a resolution to a status
  other than \<^verbatim>\<open>"Closed"\<close> leaves that alert with the new status and its resolution, and
  the property is lost.
\<close>

theorem resolution_invariant_preserved:
  "(resolution_only_when_closed (alerts s)
      \<and> (new_status = ''Closed'' \<or> targets_unresolved s [uid]) \<longrightarrow>
      resolution_only_when_closed
        (alerts (snd (update_status s uid new_status analyst new_resolution now))))
   \<and> (resolution_only_when_closed (alerts s)
      \<and> (new_status = ''Closed'' \<or> targets_unresolved s ids) \<longrightarrow>
      resolution_only_when_closed
        (alerts (snd (bulk_update_status s ids new_status analyst new_resolution clock))))
   \<and> (new_status \<noteq> ''Closed'' \<longrightarrow>
        map_option resolution
          (get_by_id (snd (update_status s uid new_status analyst new_resolution now)) u)
          = map_option resolution (get_by_id s u)
        \<and> map_option closed_at
          (get_by_id (snd (update_status s uid new_status analyst new_resolution now)) u)
          = map_option closed_at (get_by_id s u))
   \<and> (new_status \<noteq> ''Closed'' \<longrightarrow>
        map_option resolution
          (get_by_id (snd (bulk_update_status s ids new_status analyst new_resolution clock)) u)
          = map_option resolution (get_by_id s u)
        \<and> map_option closed_at
          (get_by_id (snd (bulk_update_status s ids new_status analyst new_resolution clock)) u)
          = map_option closed_at (get_by_id s u))
   \<and> (new_status \<noteq> ''Closed'' \<and> get_by_id s uid = Some a \<and> resolution a \<noteq> None \<longrightarrow>
        (\<exists>a'. get_by_id (snd (update_status s uid new_status analyst new_resolution now)) uid
                = Some a'
              \<and> status a' = new_status \<and> resolution a' = resolution a)
        \<and> \<not> resolution_only_when_closed
              (alerts (snd (update_status s uid new_status analyst new_resolution now))))"
  using reopening_breaks_invariant [of new_status s uid a analyst new_resolution now]
    update_status_preserves_invariant [of s new_status uid analyst new_resolution now]
    bulk_loop_preserves_invariant [of s new_status ids analyst new_resolution clock 0 0 "[]"]
    update_status_keeps_resolution [of new_status s uid analyst new_resolution now u]
    bulk_loop_keeps_resolution [of new_status ids analyst new_resolution clock 0 0 "[]" s u]
  unfolding bulk_update_status_def by blast

theorem resolution_invariant_preserved_witness:
  "resolution_only_when_closed (alerts stats_db)
   \<and> targets_unresolved stats_db [''1'', ''bogus'', ''3'']
   \<and> resolution_only_when_closed
        (alerts (snd (update_status stats_db ''4'' ''Closed'' ''sarah.chen''
                        (Some ''No Suspicion'') sample_now)))
   \<and> resolution_only_when_closed
        (alerts (snd (bulk_update_status stats_db [''1'', ''bogus'', ''3''] ''Review''
                        ''sarah.chen'' None sample_clock)))
   \<and> ''Review'' \<noteq> ''Closed''
   \<and> map_option resolution (get_by_id closed_db ''7'') = Some (Some ''No Suspicion'')
   \<and> map_option resolution
        (get_by_id (snd (update_status closed_db ''7'' ''Review'' ''sarah.chen'' None sample_now))
           ''7'')
       = Some (Some ''No Suspicion'')
   \<and> map_option resolution
        (get_by_id (snd (bulk_update_status closed_db [''7'', ''bogus''] ''Review'' ''sarah.chen''
                           (Some ''SAR Filed'') sample_clock)) ''7'')
       = Some (Some ''No Suspicion'')"
proof -
  have inv: "resolution_only_when_closed (alerts stats_db)"
    by (simp add: resolution_only_when_closed_def stats_db_def)
  have un: "targets_unresolved stats_db [''1'', ''bogus'', ''3'']"
    by (simp add: targets_unresolved_def get_by_id_def stats_db_def)
  have ne: "''Review'' \<noteq> ''Closed''" by simp
  have old: "map_option resolution (get_by_id closed_db ''7'') = Some (Some ''No Suspicion'')"
    by (simp add: get_by_id_def closed_db_def closed_alert_def)
  note t1 = resolution_invariant_preserved [where s = stats_db and new_status = "''Closed''"
      and uid = "''4''" and analyst = "''sarah.chen''" and new_resolution = "Some ''No Suspicion''"
      and now = sample_now and ids = "[]" and clock = sample_clock and u = "''4''"]
  note t2 = resolution_invariant_preserved [where s = stats_db and new_status = "''Review''"
      and uid = "''1''" and analyst = "''sarah.chen''" and new_resolution = None
      and now = sample_now and ids = "[''1'', ''bogus'', ''3'']" and clock = sample_clock
      and u = "''1''"]
  note t3 = resolution_invariant_preserved [where s = closed_db and new_status = "''Review''"
      and uid = "''7''" and analyst = "''sarah.chen''" and new_resolution = None
      and now = sample_now and ids = "[]" and clock = sample_clock and u = "''7''"]
  note t4 = resolution_invariant_preserved [where s = closed_db and new_status = "''Review''"
      and uid = "''7''" and analyst = "''sarah.chen''" and new_resolution = "Some ''SAR Filed''"
      and now = sample_now and ids = "[''7'', ''bogus'']" and clock = sample_clock and u = "''7''"]
  have a: "resolution_only_when_closed
        (alerts (snd (update_status stats_db ''4'' ''Closed'' ''sarah.chen''
                        (Some ''No Suspicion'') sample_now)))"
    using t1 [THEN conjunct1] inv by simp
  have b: "resolution_only_when_closed
        (alerts (snd (bulk_update_status stats_db [''1'', ''bogus'', ''3''] ''Review''
                        ''sarah.chen'' None sample_clock)))"
    using t2 [THEN conjunct2, THEN conjunct1] inv un by blast
  have c: "map_option resolution
        (get_by_id (snd (update_status closed_db ''7'' ''Review'' ''sarah.chen'' None sample_now))
           ''7'')
       = Some (Some ''No Suspicion'')"
    using t3 [THEN conjunct2, THEN conjunct2, THEN conjunct1] ne old by metis
  have d: "map_option resolution
        (get_by_id (snd (bulk_update_status closed_db [''7'', ''bogus''] ''Review'' ''sarah.chen''
                           (Some ''SAR Filed'') sample_clock)) ''7'')
       = Some (Some ''No Suspicion'')"
    using t4 [THEN conjunct2, THEN conjunct2, THEN conjunct2] ne old by metis
  from inv un a b ne old c d show ?thesis by blast
qed

text \<open>
  Claim C1 as stated fails: reopening a closed alert that carries a resolution leaves a
  row with status \<^verbatim>\<open>"New"\<close> and a resolution.
\<close>

theorem reopening_keeps_resolution:
  "resolution_only_when_closed (alerts closed_db)
   \<and> \<not> resolution_only_when_closed
         (alerts (snd (update_status closed_db ''7'' ''New'' ''sarah.chen'' None sample_now)))"
  by (simp add: resolution_only_when_closed_def closed_db_def closed_alert_def
        update_status_def get_by_id_def commit_alert_def truthy_def Let_def onupdate_def
        sample_alert_def)

section \<open>Postcondition and frame of a successful transition\<close>

text \<open>
  Claim C2, as the code has it. For an alert that is present, \<open>update_status\<close> returns
  the updated alert and writes it to its row, leaving every other row and table as it
  was. Its status is the new status and its analyst is the caller. Its resolution and
  closing time are set (the closing time to the clock reading) exactly when the new status
  is \<^verbatim>\<open>"Closed"\<close> and a non-empty resolution was supplied; otherwise both keep their values.
  The \<open>updated_at\<close> column is set to the clock reading of the flush when one of these four
  columns changed, and keeps its value when none did. Every other column keeps its value.
\<close>

theorem update_status_postcondition:
  assumes "get_by_id s uid = Some a"
  shows "\<exists>a'. update_status s uid new_status analyst new_resolution now
                = (Some a',
                   s\<lparr>alerts := map (\<lambda>row. if alert_uuid row = uid then a' else row) (alerts s)\<rparr>)
              \<and> status a' = new_status
              \<and> assigned_analyst a' = Some analyst
              \<and> resolution a' =
                  (if new_status = ''Closed'' \<and> new_resolution \<noteq> None \<and> new_resolution \<noteq> Some ''''
                   then new_resolution else resolution a)
              \<and> closed_at a' =
                  (if new_status = ''Closed'' \<and> new_resolution \<noteq> None \<and> new_resolution \<noteq> Some ''''
                   then Some (closing_time now) else closed_at a)
              \<and> updated_at a' =
                  (if status a' = status a \<and> assigned_analyst a' = assigned_analyst a
                      \<and> resolution a' = resolution a \<and> closed_at a' = closed_at a
                   then updated_at a else flush_time now)
              \<and> a'\<lparr>status := status a, assigned_analyst := assigned_analyst a,
                    resolution := resolution a, closed_at := closed_at a,
                    updated_at := updated_at a\<rparr> = a"
proof -
  have t: "truthy new_resolution \<longleftrightarrow> new_resolution \<noteq> None \<and> new_resolution \<noteq> Some ''''"
    by (cases new_resolution) (simp_all add: truthy_def)
  have u: "alert_uuid a = uid"
    using assms by (simp add: get_by_id_SomeD)
  define p where "p = (if new_status = ''Closed'' \<and> truthy new_resolution
                        then a\<lparr>status := new_status, assigned_analyst := Some analyst,
                               resolution := new_resolution,
                               closed_at := Some (closing_time now)\<rparr>
                        else a\<lparr>status := new_status, assigned_analyst := Some analyst\<rparr>)"
  have same: "p = a \<longleftrightarrow> status p = status a \<and> assigned_analyst p = assigned_analyst a
                \<and> resolution p = resolution a \<and> closed_at p = closed_at a"
    unfolding p_def by (cases a) auto
  have eq: "update_status s uid new_status analyst new_resolution now
              = (Some (onupdate a p (flush_time now)),
                 s\<lparr>alerts := commit_alert (onupdate a p (flush_time now)) (alerts s)\<rparr>)"
    unfolding p_def by (simp add: update_status_found [OF assms] Let_def)
  have rows: "commit_alert (onupdate a p (flush_time now)) (alerts s)
                = map (\<lambda>row. if alert_uuid row = uid then onupdate a p (flush_time now) else row)
                    (alerts s)"
    using u by (simp add: commit_alert_def p_def)
  have f1: "status (onupdate a p (flush_time now)) = new_status"
           "assigned_analyst (onupdate a p (flush_time now)) = Some analyst"
    by (simp_all add: p_def)
  have f2: "resolution (onupdate a p (flush_time now)) =
              (if new_status = ''Closed'' \<and> new_resolution \<noteq> None \<and> new_resolution \<noteq> Some ''''
               then new_resolution else resolution a)"
           "closed_at (onupdate a p (flush_time now)) =
              (if new_status = ''Closed'' \<and> new_resolution \<noteq> None \<and> new_resolution \<noteq> Some ''''
               then Some (closing_time now) else closed_at a)"
    unfolding p_def t by auto
  have f3: "updated_at (onupdate a p (flush_time now)) =
              (if status (onupdate a p (flush_time now)) = status a
                  \<and> assigned_analyst (onupdate a p (flush_time now)) = assigned_analyst a
                  \<and> resolution (onupdate a p (flush_time now)) = resolution a
                  \<and> closed_at (onupdate a p (flush_time now)) = closed_at a
               then updated_at a else flush_time now)"
  proof (cases "p = a")
    case True
    then show ?thesis by (simp add: onupdate_def)
  next
    case False
    with same have "\<not> (status p = status a \<and> assigned_analyst p = assigned_analyst a
                      \<and> resolution p = resolution a \<and> closed_at p = closed_at a)"
      by simp
    then show ?thesis using False by (auto simp: onupdate_def)
  qed
  have f4: "(onupdate a p (flush_time now))
              \<lparr>status := status a, assigned_analyst := assigned_analyst a,
               resolution := resolution a, closed_at := closed_at a,
               updated_at := updated_at a\<rparr> = a"
    unfolding p_def onupdate_def by (cases a) auto
  from eq rows f1 f2 f3 f4 show ?thesis
    by (intro exI [of _ "onupdate a p (flush_time now)"]) simp
qed

theorem update_status_postcondition_witness:
  "get_by_id stats_db ''1'' = Some (sample_alert ''1'' ''New'' None 80)
   \<and> fst (update_status stats_db ''1'' ''Closed'' ''sarah.chen'' (Some ''No Suspicion'') sample_now)
     = Some ((sample_alert ''1'' ''New'' None 80)
                \<lparr>status := ''Closed'', assigned_analyst := Some ''sarah.chen'',
                  resolution := Some ''No Suspicion'',
                  closed_at := Some (closing_time sample_now),
                  updated_at := flush_time sample_now\<rparr>)"
proof -
  have h: "get_by_id stats_db ''1'' = Some (sample_alert ''1'' ''New'' None 80)"
    by (simp add: get_by_id_def stats_db_def)
  from update_status_postcondition [OF h, of "''Closed''" "''sarah.chen''" "Some ''No Suspicion''"
      sample_now]
  obtain a' where
    eq: "fst (update_status stats_db ''1'' ''Closed'' ''sarah.chen'' (Some ''No Suspicion'')
                sample_now) = Some a'"
    and st: "status a' = ''Closed''" and an: "assigned_analyst a' = Some ''sarah.chen''"
    and re: "resolution a' = Some ''No Suspicion''"
    and cl: "closed_at a' = Some (closing_time sample_now)"
    and up: "updated_at a' = flush_time sample_now"
    and fr: "a'\<lparr>status := ''New'', assigned_analyst := None, resolution := None,
               closed_at := None, updated_at := updated_at (sample_alert ''1'' ''New'' None 80)\<rparr>
             = sample_alert ''1'' ''New'' None 80"
    by auto
  have "a' = (sample_alert ''1'' ''New'' None 80)
                \<lparr>status := ''Closed'', assigned_analyst := Some ''sarah.chen'',
                  resolution := Some ''No Suspicion'',
                  closed_at := Some (closing_time sample_now),
                  updated_at := flush_time sample_now\<rparr>"
    using st an re cl up fr by (cases a') (auto simp: sample_alert_def)
  with eq h show ?thesis by simp
qed

text \<open>
  Claim C2 as stated fails when the resolution supplied is the empty string: the alert is
  closed, yet neither the resolution nor the closing time is set.
\<close>

theorem empty_resolution_is_not_recorded:
  "map_option resolution
     (fst (update_status stats_db ''3'' ''Closed'' ''sarah.chen'' (Some '''') sample_now))
     = Some None
   \<and> map_option closed_at
     (fst (update_status stats_db ''3'' ''Closed'' ''sarah.chen'' (Some '''') sample_now))
     = Some None"
proof -
  have h: "get_by_id stats_db ''3'' = Some (sample_alert ''3'' ''Review'' None 60)"
    by (simp add: get_by_id_def stats_db_def)
  show ?thesis
    by (simp add: update_status_found [OF h] truthy_def Let_def)
qed

section \<open>Bulk transitions with partial failure\<close>

lemma fold_audit_create:
  "fold (\<lambda>aid t. audit_create t aid act who det) xs t0 =
     t0\<lparr>audit_trail_entries := audit_trail_entries t0 @
           map (\<lambda>aid. \<lparr>entry_alert_id = aid, action = act, details = det, performed_by = who\<rparr>) xs\<rparr>"
  by (induction xs arbitrary: t0) (simp_all add: audit_create_def)

lemma not_failed_filter:
  "filter (\<lambda>aid. aid \<notin> set (filter (\<lambda>u. get_by_id s u = None) ids)) ids
     = filter (\<lambda>u. get_by_id s u \<noteq> None) ids"
  by (rule filter_cong) auto

lemma bulk_update_status_result:
  "fst (bulk_update_status s ids st an r clock) =
     (length (filter (\<lambda>u. get_by_id s u \<noteq> None) ids), filter (\<lambda>u. get_by_id s u = None) ids)"
  by (simp add: bulk_update_status_def bulk_loop_result)

lemma bulk_close_alerts_unfold:
  "bulk_close_alerts s body an clock =
     (\<lparr>resp_closed_count = length (filter (\<lambda>u. get_by_id s u \<noteq> None) (req_alert_ids body)),
       resp_failed_ids = filter (\<lambda>u. get_by_id s u = None) (req_alert_ids body)\<rparr>,
      (snd (bulk_update_status s (req_alert_ids body) ''Closed'' an (Some (req_resolution body)) clock))
        \<lparr>audit_trail_entries := audit_trail_entries s @
            map (\<lambda>aid. \<lparr>entry_alert_id = aid, action = ''bulk_close'',
                         details = Some (bulk_close_audit_details body), performed_by = an\<rparr>)
                (filter (\<lambda>u. get_by_id s u \<noteq> None) (req_alert_ids body))\<rparr>)"
proof -
  obtain res s' where b: "bulk_update_status s (req_alert_ids body) ''Closed'' an
                            (Some (req_resolution body)) clock = (res, s')"
    by (cases "bulk_update_status s (req_alert_ids body) ''Closed'' an (Some (req_resolution body)) clock")
  have res: "res = (length (filter (\<lambda>u. get_by_id s u \<noteq> None) (req_alert_ids body)),
                    filter (\<lambda>u. get_by_id s u = None) (req_alert_ids body))"
    using bulk_update_status_result [of s "req_alert_ids body" "''Closed''" an
            "Some (req_resolution body)" clock] b by simp
  have au: "audit_trail_entries s' = audit_trail_entries s"
    using bulk_loop_other_tables [of "req_alert_ids body" "''Closed''" an
            "Some (req_resolution body)" clock 0 0 "[]" s] b
    by (simp add: bulk_update_status_def)
  show ?thesis
    unfolding bulk_close_alerts_def b res
    by (simp only: prod.case Let_def not_failed_filter fold_audit_create au snd_conv)
qed

text \<open>
  Claim C3. \<open>bulk_update_status\<close> visits every id of the list, whatever happened to the
  earlier ones: the failed ids are exactly the ids with no alert, in the order of the list,
  the success count is the number of ids whose alert was found, and every found id ends
  with the new status and the caller as analyst (an earlier success is not rolled back, a
  failure does not stop the loop). The repository writes no audit entry. The route
  \<open>bulk_close_alerts\<close> reports the same count and failed ids and appends one audit entry
  with action \<^verbatim>\<open>"bulk_close"\<close>, performed by the analyst, for each successful id, in the
  order of the list, and none for a failed id.
\<close>

theorem bulk_update_partial_failure:
  "fst (bulk_update_status s ids new_status analyst new_resolution clock)
     = (length (filter (\<lambda>u. get_by_id s u \<noteq> None) ids),
        filter (\<lambda>u. get_by_id s u = None) ids)
   \<and> (\<forall>uid \<in> set ids. get_by_id s uid \<noteq> None \<longrightarrow>
         (\<exists>a. get_by_id (snd (bulk_update_status s ids new_status analyst new_resolution clock)) uid
                 = Some a
              \<and> status a = new_status \<and> assigned_analyst a = Some analyst))
   \<and> audit_trail_entries (snd (bulk_update_status s ids new_status analyst new_resolution clock))
     = audit_trail_entries s
   \<and> fst (bulk_close_alerts s body analyst clock)
     = \<lparr>resp_closed_count = length (filter (\<lambda>u. get_by_id s u \<noteq> None) (req_alert_ids body)),
        resp_failed_ids = filter (\<lambda>u. get_by_id s u = None) (req_alert_ids body)\<rparr>
   \<and> audit_trail_entries (snd (bulk_close_alerts s body analyst clock))
     = audit_trail_entries s @
         map (\<lambda>aid. \<lparr>entry_alert_id = aid, action = ''bulk_close'',
                      details = Some (bulk_close_audit_details body), performed_by = analyst\<rparr>)
             (filter (\<lambda>u. get_by_id s u \<noteq> None) (req_alert_ids body))
   \<and> (\<forall>uid \<in> set (req_alert_ids body). get_by_id s uid \<noteq> None \<longrightarrow>
         (\<exists>a. get_by_id (snd (bulk_close_alerts s body analyst clock)) uid = Some a
              \<and> status a = ''Closed'' \<and> assigned_analyst a = Some analyst))"
proof -
  have every: "\<exists>a. get_by_id (snd (bulk_update_status s xs st analyst r clock)) uid = Some a
                  \<and> status a = st \<and> assigned_analyst a = Some analyst"
    if "uid \<in> set xs" "get_by_id s uid \<noteq> None" for xs st r uid
    using that unfolding bulk_update_status_def by (rule bulk_loop_every_found_id)
  have g: "get_by_id (snd (bulk_close_alerts s body analyst clock)) uid
           = get_by_id (snd (bulk_update_status s (req_alert_ids body) ''Closed'' analyst
                               (Some (req_resolution body)) clock)) uid" for uid
    unfolding bulk_close_alerts_unfold by (simp add: get_by_id_def)
  have p1: "fst (bulk_update_status s ids new_status analyst new_resolution clock)
     = (length (filter (\<lambda>u. get_by_id s u \<noteq> None) ids),
        filter (\<lambda>u. get_by_id s u = None) ids)"
    by (rule bulk_update_status_result)
  have p2: "\<forall>uid \<in> set ids. get_by_id s uid \<noteq> None \<longrightarrow>
         (\<exists>a. get_by_id (snd (bulk_update_status s ids new_status analyst new_resolution clock)) uid
                 = Some a
              \<and> status a = new_status \<and> assigned_analyst a = Some analyst)"
    using every by blast
  have p3: "audit_trail_entries (snd (bulk_update_status s ids new_status analyst new_resolution clock))
     = audit_trail_entries s"
    by (simp add: bulk_update_status_def bulk_loop_other_tables)
  have p4: "fst (bulk_close_alerts s body analyst clock)
     = \<lparr>resp_closed_count = length (filter (\<lambda>u. get_by_id s u \<noteq> None) (req_alert_ids body)),
        resp_failed_ids = filter (\<lambda>u. get_by_id s u = None) (req_alert_ids body)\<rparr>"
    unfolding bulk_close_alerts_unfold by (simp only: fst_conv)
  have p5: "audit_trail_entries (snd (bulk_close_alerts s body analyst clock))
     = audit_trail_entries s @
         map (\<lambda>aid. \<lparr>entry_alert_id = aid, action = ''bulk_close'',
                      details = Some (bulk_close_audit_details body), performed_by = analyst\<rparr>)
             (filter (\<lambda>u. get_by_id s u \<noteq> None) (req_alert_ids body))"
    unfolding bulk_close_alerts_unfold by (simp del: not_None_eq)
  have p6: "\<forall>uid \<in> set (req_alert_ids body). get_by_id s uid \<noteq> None \<longrightarrow>
         (\<exists>a. get_by_id (snd (bulk_close_alerts s body analyst clock)) uid = Some a
              \<and> status a = ''Closed'' \<and> assigned_analyst a = Some analyst)"
    unfolding g using every by blast
  from p1 p2 p3 p4 p5 p6 show ?thesis by blast
qed

theorem bulk_update_partial_failure_witness:
  "fst (bulk_close_alerts stats_db
          \<lparr>req_alert_ids = [''1'', ''bogus'', ''2''], req_resolution = ''No Suspicion'',
           req_rationale = ''r''\<rparr> ''sarah.chen'' sample_clock)
     = \<lparr>resp_closed_count = 2, resp_failed_ids = [''bogus'']\<rparr>
   \<and> map entry_alert_id (audit_trail_entries (snd (bulk_close_alerts stats_db
          \<lparr>req_alert_ids = [''1'', ''bogus'', ''2''], req_resolution = ''No Suspicion'',
           req_rationale = ''r''\<rparr> ''sarah.chen'' sample_clock)))
     = [''1'', ''2'']
   \<and> map_option status (get_by_id (snd (bulk_close_alerts stats_db
          \<lparr>req_alert_ids = [''1'', ''bogus'', ''2''], req_resolution = ''No Suspicion'',
           req_rationale = ''r''\<rparr> ''sarah.chen'' sample_clock)) ''2'')
     = Some ''Closed''"
proof -
  have g: "get_by_id stats_db ''1'' \<noteq> None" "get_by_id stats_db ''2'' \<noteq> None"
          "get_by_id stats_db ''bogus'' = None"
    by (simp_all add: get_by_id_def stats_db_def)
  have a: "audit_trail_entries stats_db = []" by (simp add: stats_db_def)
  note t = bulk_update_partial_failure [where s = stats_db and ids = "[]" and new_status = "''Closed''"
      and analyst = "''sarah.chen''" and new_resolution = None and clock = sample_clock
      and body = "\<lparr>req_alert_ids = [''1'', ''bogus'', ''2''], req_resolution = ''No Suspicion'',
           req_rationale = ''r''\<rparr>"]
  from t g have c3: "\<exists>a. get_by_id (snd (bulk_close_alerts stats_db
          \<lparr>req_alert_ids = [''1'', ''bogus'', ''2''], req_resolution = ''No Suspicion'',
           req_rationale = ''r''\<rparr> ''sarah.chen'' sample_clock)) ''2'' = Some a \<and> status a = ''Closed''"
    by auto
  from t g a have c12: "fst (bulk_close_alerts stats_db
          \<lparr>req_alert_ids = [''1'', ''bogus'', ''2''], req_resolution = ''No Suspicion'',
           req_rationale = ''r''\<rparr> ''sarah.chen'' sample_clock)
     = \<lparr>resp_closed_count = 2, resp_failed_ids = [''bogus'']\<rparr>
   \<and> map entry_alert_id (audit_trail_entries (snd (bulk_close_alerts stats_db
          \<lparr>req_alert_ids = [''1'', ''bogus'', ''2''], req_resolution = ''No Suspicion'',
           req_rationale = ''r''\<rparr> ''sarah.chen'' sample_clock)))
     = [''1'', ''2'']"
    by simp
  from c3 c12 show ?thesis by auto
qed

section \<open>Queue statistics\<close>

text \<open>
  Claim C6. For every table, \<open>get_stats\<close> counts all alerts, the alerts whose status is one
  of New, In Progress, Review and Escalated, the alerts with a risk score of at least 70
  whatever their status, the closed alerts, and the alerts that have no analyst and an open
  status. On the six alerts of the example (their statuses, analysts and risk scores are
  spelled out) it returns total 6, open 4, high risk 4, closed 2 and unassigned 3.
\<close>

theorem get_stats_counts:
  "total_alerts (get_stats s) = length (alerts s)
   \<and> open_alerts (get_stats s)
       = length (filter (\<lambda>a. status a = ''New'' \<or> status a = ''In Progress''
                              \<or> status a = ''Review'' \<or> status a = ''Escalated'') (alerts s))
   \<and> high_risk_count (get_stats s) = length (filter (\<lambda>a. 70 \<le> risk_score a) (alerts s))
   \<and> closed_count (get_stats s) = length (filter (\<lambda>a. status a = ''Closed'') (alerts s))
   \<and> unassigned_count (get_stats s)
       = length (filter (\<lambda>a. assigned_analyst a = None
                              \<and> (status a = ''New'' \<or> status a = ''In Progress''
                                   \<or> status a = ''Review'' \<or> status a = ''Escalated'')) (alerts s))
   \<and> map status (alerts stats_db)
       = [''New'', ''In Progress'', ''Review'', ''Closed'', ''Escalated'', ''Closed'']
   \<and> map assigned_analyst (alerts stats_db) = [None, Some ''a'', None, Some ''a'', None, Some ''a'']
   \<and> map risk_score (alerts stats_db) = [80, 70, 60, 90, 55, 75]
   \<and> get_stats stats_db
       = \<lparr>total_alerts = 6, open_alerts = 4, high_risk_count = 4, closed_count = 2,
          unassigned_count = 3\<rparr>"
proof -
  have o: "status a \<in> set open_statuses \<longleftrightarrow>
             status a = ''New'' \<or> status a = ''In Progress''
             \<or> status a = ''Review'' \<or> status a = ''Escalated''" for a :: alert
    by (simp add: open_statuses_def)
  have general: "get_stats s =
      \<lparr>total_alerts = length (alerts s),
       open_alerts = length (filter (\<lambda>a. status a = ''New'' \<or> status a = ''In Progress''
                              \<or> status a = ''Review'' \<or> status a = ''Escalated'') (alerts s)),
       high_risk_count = length (filter (\<lambda>a. 70 \<le> risk_score a) (alerts s)),
       closed_count = length (filter (\<lambda>a. status a = ''Closed'') (alerts s)),
       unassigned_count = length (filter (\<lambda>a. assigned_analyst a = None
                              \<and> (status a = ''New'' \<or> status a = ''In Progress''
                                   \<or> status a = ''Review'' \<or> status a = ''Escalated'')) (alerts s))\<rparr>" for s
    by (simp add: get_stats_def count_where_def o)
  have ex: "get_stats stats_db
       = \<lparr>total_alerts = 6, open_alerts = 4, high_risk_count = 4, closed_count = 2,
          unassigned_count = 3\<rparr>"
    unfolding general by (simp add: stats_db_def)
  have cols: "map status (alerts stats_db)
       = [''New'', ''In Progress'', ''Review'', ''Closed'', ''Escalated'', ''Closed'']"
    "map assigned_analyst (alerts stats_db) = [None, Some ''a'', None, Some ''a'', None, Some ''a'']"
    "map risk_score (alerts stats_db) = [80, 70, 60, 90, 55, 75]"
    by (simp_all add: stats_db_def)
  show ?thesis
    unfolding ex using cols by (simp add: general)
qed

section \<open>The queue: ordering and window\<close>

lemma mset_insort_by: "mset (insort_by le x ys) = add_mset x (mset ys)"
  by (induction ys) simp_all

lemma mset_order_by: "mset (order_by le rows) = mset rows"
  by (induction rows) (simp_all add: order_by_def mset_insort_by)

lemma length_order_by: "length (order_by le rows) = length rows"
  using mset_order_by [of le rows] by (metis size_mset)

lemma set_order_by: "set (order_by le rows) = set rows"
  using mset_order_by [of le rows] by (metis set_mset_mset)














lemma sample_runtime_no_filters [simp]:
  "where_fails sample_runtime f rows = False"
  "query_where sample_runtime no_filters a = True"
  "bound_fits (f_risk_min no_filters)" "bound_fits (f_risk_max no_filters)"
  by (simp_all add: sample_runtime_def query_where_def no_filters_def where_typology_def
        where_status_def where_risk_min_def where_risk_max_def where_resolution_def
        where_assigned_analyst_def where_search_def bound_fits_def)

section \<open>The total count and the window\<close>




section \<open>A comma-separated status filter\<close>



section \<open>Similar cases: ranking\<close>

lemma score_candidate_positive_or_zero:
  "0 \<le> fst (score_candidate fmt t tc c cc)"
  by (simp add: score_candidate_def rule_typology_def rule_risk_score_def rule_flagged_amount_def
        rule_risk_category_def TYPOLOGY_WEIGHT_def RISK_SCORE_WEIGHT_def FLAGGED_AMOUNT_WEIGHT_def
        RISK_CATEGORY_WEIGHT_def Let_def split: option.splits)

lemma score_loop_entries:
  "x \<in> set (score_loop fmt s t tc cands) \<Longrightarrow>
   \<exists>c \<in> set cands. case_id x = alert_uuid c
      \<and> (similarity_score x, matching_factors x)
          = score_candidate fmt t tc c (customer_risk_category s c)
      \<and> 0 < similarity_score x"
proof (induction cands)
  case Nil
  then show ?case by simp
next
  case (Cons c cands)
  obtain sc mf where sc: "score_candidate fmt t tc c (customer_risk_category s c) = (sc, mf)"
    by (cases "score_candidate fmt t tc c (customer_risk_category s c)")
  show ?case
  proof (cases "0 < sc")
    case True
    with Cons sc show ?thesis by auto
  next
    case False
    with Cons sc show ?thesis by auto
  qed
qed

text \<open>
  Claim C4. For every table and every id of an alert in it, \<open>find_similar_cases\<close>
  returns a list (it does not raise) of at most 5 entries, none of which is the target,
  with similarity scores that never increase along the list, and with no entry of score 0:
  every entry is the record of an alert other than the target, with the score and the
  factors that the four rules give that alert, and that score is positive.
\<close>

theorem find_similar_cases_ranking:
  assumes "get_by_id s uid = Some target"
  shows "\<exists>rs. find_similar_cases fmt s uid = Inr rs
           \<and> length rs \<le> 5
           \<and> (\<forall>x \<in> set rs. case_id x \<noteq> uid)
           \<and> sorted_wrt (\<lambda>x y. similarity_score x \<ge> similarity_score y) rs
           \<and> (\<forall>x \<in> set rs. similarity_score x \<noteq> 0)
           \<and> (\<forall>x \<in> set rs. \<exists>c \<in> set (alerts s). alert_uuid c \<noteq> uid
                  \<and> case_id x = alert_uuid c
                  \<and> (similarity_score x, matching_factors x)
                      = score_candidate fmt target (customer_risk_category s target) c
                          (customer_risk_category s c))"
proof -
  let ?cands = "filter (\<lambda>a. alert_uuid a \<noteq> uid) (alerts s)"
  let ?scored = "score_loop fmt s target (customer_risk_category s target) ?cands"
  let ?rs = "take MAX_RESULTS (sort_key (\<lambda>c. - similarity_score c) ?scored)"
  have eq: "find_similar_cases fmt s uid = Inr ?rs"
    using assms by (simp add: find_similar_cases_def get_by_id_def Let_def)
  have len: "length ?rs \<le> 5" by (simp add: MAX_RESULTS_def)
  have sub: "set ?rs \<subseteq> set ?scored"
    using set_take_subset [of MAX_RESULTS "sort_key (\<lambda>c. - similarity_score c) ?scored"] by simp
  have ent: "\<exists>c \<in> set (alerts s). alert_uuid c \<noteq> uid \<and> case_id x = alert_uuid c
               \<and> (similarity_score x, matching_factors x)
                   = score_candidate fmt target (customer_risk_category s target) c
                       (customer_risk_category s c)
               \<and> 0 < similarity_score x"
    if "x \<in> set ?rs" for x
    using score_loop_entries [of x fmt s target "customer_risk_category s target" ?cands] that sub
    by auto
  have "sorted (map (\<lambda>c. - similarity_score c) (sort_key (\<lambda>c. - similarity_score c) ?scored))"
    by (rule sorted_sort_key)
  then have "sorted_wrt (\<lambda>x y. similarity_score x \<ge> similarity_score y)
               (sort_key (\<lambda>c. - similarity_score c) ?scored)"
    by (simp add: sorted_map)
  then have srt: "sorted_wrt (\<lambda>x y. similarity_score x \<ge> similarity_score y) ?rs"
    by (rule sorted_wrt_take)
  have ids: "\<forall>x \<in> set ?rs. case_id x \<noteq> uid" using ent by fastforce
  have pos: "\<forall>x \<in> set ?rs. similarity_score x \<noteq> 0" using ent by fastforce
  have src: "\<forall>x \<in> set ?rs. \<exists>c \<in> set (alerts s). alert_uuid c \<noteq> uid
                  \<and> case_id x = alert_uuid c
                  \<and> (similarity_score x, matching_factors x)
                      = score_candidate fmt target (customer_risk_category s target) c
                          (customer_risk_category s c)"
    using ent by blast
  from eq len ids srt pos src show ?thesis by blast
qed

theorem find_similar_cases_ranking_witness:
  "get_by_id stats_db ''1'' = Some (sample_alert ''1'' ''New'' None 80)
   \<and> (\<exists>rs. find_similar_cases (\<lambda>x. ''1,000'') stats_db ''1'' = Inr rs
         \<and> length rs \<le> 5
         \<and> list_all (\<lambda>x. case_id x \<noteq> ''1'' \<and> similarity_score x \<noteq> 0) rs
         \<and> sorted_wrt (\<lambda>x y. similarity_score x \<ge> similarity_score y) rs
         \<and> map case_id rs = [''2'', ''4'', ''6'', ''3'', ''5'']
         \<and> map similarity_score rs = [100, 100, 100, 75, 75])"
proof -
  have h: "get_by_id stats_db ''1'' = Some (sample_alert ''1'' ''New'' None 80)"
    by (simp add: get_by_id_def stats_db_def)
  have ev: "map case_id (projr (find_similar_cases (\<lambda>x. ''1,000'') stats_db ''1''))
              = [''2'', ''4'', ''6'', ''3'', ''5'']
            \<and> map similarity_score (projr (find_similar_cases (\<lambda>x. ''1,000'') stats_db ''1''))
              = [100, 100, 100, 75, 75]"
    by (simp add: find_similar_cases_def stats_db_def customer_risk_category_def
          score_candidate_def rule_typology_def rule_risk_score_def rule_flagged_amount_def
          rule_risk_category_def Let_def MAX_RESULTS_def sample_alert_def TYPOLOGY_WEIGHT_def
          RISK_SCORE_WEIGHT_def FLAGGED_AMOUNT_WEIGHT_def RISK_CATEGORY_WEIGHT_def
          RISK_SCORE_TOLERANCE_def FLAGGED_AMOUNT_TOLERANCE_RATIO_def)
  from find_similar_cases_ranking [OF h, of "\<lambda>x. ''1,000''"] h ev
  show ?thesis by (auto simp: list_all_iff)
qed

section \<open>Similar cases: a candidate that matches on every rule\<close>

text \<open>
  Claim C9. When the candidate has the typology of the target, their risk scores differ
  by at most 15, both flagged amounts are present with the target's positive and their
  difference at most half of the target's, and both customers have a risk category and it
  is the same, the candidate scores exactly 100 = 40 + 25 + 20 + 15 and has four matching
  factors: the descriptions of rules 1 to 4, in that order.
\<close>

theorem full_match_scores_100:
  assumes "typology candidate = typology target_alert"
    and "\<bar>risk_score candidate - risk_score target_alert\<bar> \<le> 15"
    and "total_flagged_amount target_alert = Some t" and "t > 0"
    and "total_flagged_amount candidate = Some c" and "\<bar>c - t\<bar> \<le> 0.5 * t"
    and "customer_risk_category s target_alert = Some cat"
    and "customer_risk_category s candidate = Some cat"
  shows "score_candidate fmt target_alert (customer_risk_category s target_alert) candidate
           (customer_risk_category s candidate)
           = (100,
              [''Same typology: '' @ typology candidate,
               ''Risk score within 15 points ('' @ show_int (risk_score candidate) @ '' vs ''
                 @ show_int (risk_score target_alert) @ '')'',
               ''Flagged amount within 50% ('' @ rupee @ fmt c @ '' vs '' @ rupee @ fmt t @ '')'',
               ''Same risk category: '' @ cat])
         \<and> map similarity_score
             (score_loop fmt s target_alert (customer_risk_category s target_alert) [candidate])
           = [40 + 25 + 20 + 15]
         \<and> map (\<lambda>x. length (matching_factors x))
             (score_loop fmt s target_alert (customer_risk_category s target_alert) [candidate])
           = [4]"
proof -
  have fifteen: "show_int RISK_SCORE_TOLERANCE = ''15''"
    unfolding RISK_SCORE_TOLERANCE_def by code_simp
  have half: "\<bar>c - t\<bar> \<le> t * FLAGGED_AMOUNT_TOLERANCE_RATIO"
    using assms(6) by (simp add: FLAGGED_AMOUNT_TOLERANCE_RATIO_def)
  have r1: "rule_typology target_alert candidate (0, [])
              = (40, [''Same typology: '' @ typology candidate])"
    using assms(1) by (simp add: rule_typology_def TYPOLOGY_WEIGHT_def)
  have r2: "rule_risk_score target_alert candidate (sc, fs)
              = (sc + 25, fs @ [''Risk score within 15 points ('' @ show_int (risk_score candidate)
                   @ '' vs '' @ show_int (risk_score target_alert) @ '')''])" for sc fs
    using assms(2) unfolding rule_risk_score_def Let_def fifteen
    by (simp add: RISK_SCORE_TOLERANCE_def RISK_SCORE_WEIGHT_def)
  have r3: "rule_flagged_amount fmt target_alert candidate (sc, fs)
              = (sc + 20, fs @ [''Flagged amount within 50% ('' @ rupee @ fmt c @ '' vs ''
                   @ rupee @ fmt t @ '')''])" for sc fs
    using assms(3,4,5) half
    by (simp add: rule_flagged_amount_def Let_def FLAGGED_AMOUNT_WEIGHT_def)
  have r4: "rule_risk_category (Some cat) (Some cat) (sc, fs)
              = (sc + 15, fs @ [''Same risk category: '' @ cat])" for sc fs
    by (simp add: rule_risk_category_def RISK_CATEGORY_WEIGHT_def)
  have sc: "score_candidate fmt target_alert (customer_risk_category s target_alert) candidate
           (customer_risk_category s candidate)
           = (100,
              [''Same typology: '' @ typology candidate,
               ''Risk score within 15 points ('' @ show_int (risk_score candidate) @ '' vs ''
                 @ show_int (risk_score target_alert) @ '')'',
               ''Flagged amount within 50% ('' @ rupee @ fmt c @ '' vs '' @ rupee @ fmt t @ '')'',
               ''Same risk category: '' @ cat])"
    unfolding assms(7,8) score_candidate_def r1 r2 r3 r4 by simp
  show ?thesis
    unfolding score_loop.simps sc by simp
qed

theorem full_match_scores_100_witness:
  "score_candidate (\<lambda>x. ''1,000'') (sample_alert ''1'' ''New'' None 80)
     (customer_risk_category stats_db (sample_alert ''1'' ''New'' None 80))
     (sample_alert ''2'' ''In Progress'' (Some ''a'') 70)
     (customer_risk_category stats_db (sample_alert ''2'' ''In Progress'' (Some ''a'') 70))
   = (100,
      [''Same typology: Structuring'',
       ''Risk score within 15 points (70 vs 80)'',
       ''Flagged amount within 50% ('' @ rupee @ ''1,000 vs '' @ rupee @ ''1,000)'',
       ''Same risk category: High''])"
proof -
  let ?t = "sample_alert ''1'' ''New'' None 80"
  let ?c = "sample_alert ''2'' ''In Progress'' (Some ''a'') 70"
  have h1: "typology ?c = typology ?t" by (simp add: sample_alert_def)
  have h2: "\<bar>risk_score ?c - risk_score ?t\<bar> \<le> 15" by simp
  have h3: "total_flagged_amount ?t = Some 1000" by (simp add: sample_alert_def)
  have h4: "(1000::real) > 0" by simp
  have h5: "total_flagged_amount ?c = Some 1000" by (simp add: sample_alert_def)
  have h6: "\<bar>1000 - 1000\<bar> \<le> 0.5 * (1000::real)" by simp
  have h7: "customer_risk_category stats_db ?t = Some ''High''"
    by (simp add: customer_risk_category_def stats_db_def sample_alert_def)
  have h8: "customer_risk_category stats_db ?c = Some ''High''"
    by (simp add: customer_risk_category_def stats_db_def sample_alert_def)
  have n70: "show_int 70 = ''70''" by code_simp
  have n80: "show_int 80 = ''80''" by code_simp
  have ty: "typology ?c = ''Structuring''" by (simp add: sample_alert_def)
  from full_match_scores_100 [OF h1 h2 h3 h4 h5 h6 h7 h8, of "\<lambda>x. ''1,000''"]
  show ?thesis by (simp add: n70 n80 ty)
qed

end
